theory Spec2Isabelle
  imports Complex_Main "HOL-Library.Sublist"
begin

section \<open>Python strings\<close>

text \<open>
  A Python \<open>str\<close> is modelled as a \<open>string\<close> whose characters are read as code points
  below 256. \<open>is_space\<close> is \<open>str.isspace\<close> on one character, which is also what the
  regular-expression class \<open>\s\<close> matches and what \<open>str.strip()\<close> removes.
\<close>

definition is_space :: "char \<Rightarrow> bool" where
  "is_space c = (of_char c \<in> {9, 10, 11, 12, 13, 28, 29, 30, 31, 32, 133, 160 :: nat})"

abbreviation nl :: char where
  "nl \<equiv> CHR 0x0A"

definition strip :: "string \<Rightarrow> string" where
  "strip s = rev (dropWhile is_space (rev (dropWhile is_space s)))"

text \<open>\<open>text[a:b]\<close> for \<open>0 \<le> a\<close> and \<open>0 \<le> b\<close>.\<close>

definition slice :: "string \<Rightarrow> nat \<Rightarrow> nat \<Rightarrow> string" where
  "slice s a b = take (b - a) (drop a s)"

text \<open>\<open>str.lower()\<close> on code points below 256.\<close>

definition char_lower :: "char \<Rightarrow> char" where
  "char_lower c = (let n = (of_char c :: nat) in
     if (65 \<le> n \<and> n \<le> 90) \<or> (192 \<le> n \<and> n \<le> 222 \<and> n \<noteq> 215)
     then char_of (n + 32) else c)"

definition lower :: "string \<Rightarrow> string" where
  "lower s = map char_lower s"

text \<open>\<open>sub in s\<close> on strings: \<open>sub\<close> occurs in \<open>s\<close> as a contiguous run.\<close>

fun py_in :: "string \<Rightarrow> string \<Rightarrow> bool" where
  "py_in sub [] = (sub = [])"
| "py_in sub (c # cs) = (prefix sub (c # cs) \<or> py_in sub cs)"

text \<open>\<open>xs[:n]\<close> for any integer \<open>n\<close>: a negative \<open>n\<close> counts from the end.\<close>

definition py_take :: "int \<Rightarrow> 'a list \<Rightarrow> 'a list" where
  "py_take n xs = (if 0 \<le> n then take (nat n) xs else take (length xs - nat (- n)) xs)"

text \<open>
  The regular expression \<open>\s+(.+)$\<close> with \<open>re.MULTILINE\<close>, matched at the start of
  \<open>rest\<close>; the result is group 1 and the length of the match. \<open>\s+\<close> is greedy: it takes
  the whole run of whitespace when a character follows the run (that character is not a
  newline, and \<open>.+\<close> runs to the end of its line); when nothing follows the run, it gives
  characters back until \<open>.+\<close> can start at a whitespace character that is not a newline,
  which is then all that \<open>.+\<close> matches.
\<close>

definition heading_tail :: "string \<Rightarrow> (string \<times> nat) option" where
  "heading_tail rest =
     (let ws = takeWhile is_space rest;
          n = length ws;
          after = drop n rest
      in if n = 0 then None
         else if after \<noteq> [] then
           (let g = takeWhile (\<lambda>c. c \<noteq> nl) after in Some (g, n + length g))
         else
           (case filter (\<lambda>j. ws ! j \<noteq> nl) (rev [1 ..< n]) of
              [] \<Rightarrow> None
            | j # _ \<Rightarrow> Some ([ws ! j], Suc j)))"

text \<open>
  \<open>re.finditer\<close> for a pattern that never matches the empty string. The matcher \<open>m\<close>
  gets the character before the position (for \<open>^\<close> and look-behind) and the rest of the
  text, and returns what it captured and the length of the match. The scan yields the
  leftmost match, with its start and end offsets, and goes on from its end.
\<close>

function finditer ::
  "(char option \<Rightarrow> string \<Rightarrow> ('a \<times> nat) option) \<Rightarrow> char option \<Rightarrow> nat \<Rightarrow> string \<Rightarrow>
   ('a \<times> nat \<times> nat) list" where
  "finditer m prev pos [] = []"
| "finditer m prev pos (c # cs) =
     (case m prev (c # cs) of
        None \<Rightarrow> finditer m (Some c) (Suc pos) cs
      | Some (x, n) \<Rightarrow>
          (case n of
             0 \<Rightarrow> finditer m (Some c) (Suc pos) cs
           | Suc k \<Rightarrow>
               (x, pos, pos + Suc k) #
               finditer m (Some (last (take (Suc k) (c # cs)))) (pos + Suc k) (drop k cs)))"
  by pat_completeness auto
termination
  by (relation "measure (\<lambda>(m, prev, pos, s). length s)") auto

section \<open>Chunking (noctem/wiki/chunking.py)\<close>

record TextChunk =
  content :: string
  page_or_section :: "string option"
  chunk_index :: int
  start_char :: int
  end_char :: int
  token_count :: int

definition CHARS_PER_TOKEN :: int where
  "CHARS_PER_TOKEN = 4"

definition estimate_tokens :: "string \<Rightarrow> int" where
  "estimate_tokens s = int (length s) div CHARS_PER_TOKEN"

definition tokens_to_chars :: "int \<Rightarrow> int" where
  "tokens_to_chars n = n * CHARS_PER_TOKEN"

text \<open>
  \<open>_merge_small_chunks\<close>. The outer loop takes \<open>current = chunks[i]\<close>; the inner loop
  absorbs \<open>chunks[i + 1]\<close> into \<open>current\<close> while \<open>current\<close> is below the floor and a
  next chunk exists; then \<open>current\<close> is appended and the outer loop goes on with the
  chunk after the last one absorbed. \<open>merge_from current rest\<close> is the state of the
  two loops with \<open>rest = chunks[i + 1:]\<close>.
\<close>

definition merge_pair :: "TextChunk \<Rightarrow> TextChunk \<Rightarrow> TextChunk" where
  "merge_pair current next_chunk =
     \<lparr> content = content current @ [nl, nl] @ content next_chunk,
       page_or_section = page_or_section current,
       chunk_index = chunk_index current,
       start_char = start_char current,
       end_char = end_char next_chunk,
       token_count = token_count current + token_count next_chunk \<rparr>"

fun merge_from :: "TextChunk \<Rightarrow> TextChunk list \<Rightarrow> int \<Rightarrow> TextChunk list" where
  "merge_from current [] min_tokens = [current]"
| "merge_from current (next_chunk # rest) min_tokens =
     (if token_count current < min_tokens
      then merge_from (merge_pair current next_chunk) rest min_tokens
      else current # merge_from next_chunk rest min_tokens)"

definition merge_small_chunks :: "TextChunk list \<Rightarrow> int \<Rightarrow> TextChunk list" where
  "merge_small_chunks chunks min_tokens =
     (if length chunks \<le> 1 then chunks
      else merge_from (hd chunks) (tl chunks) min_tokens)"

text \<open>
  The pattern \<open>\n\s*\n\<close> at the start of \<open>s\<close>: a newline, then the greedy \<open>\s*\<close> gives
  characters back until a newline follows, so the match ends with the last newline of
  the run of whitespace after the first newline.
\<close>

definition para_sep :: "char option \<Rightarrow> string \<Rightarrow> (unit \<times> nat) option" where
  "para_sep prev s =
     (case s of
        [] \<Rightarrow> None
      | c # rest \<Rightarrow>
          if c \<noteq> nl then None
          else (let ws = takeWhile is_space rest in
                if nl \<in> set ws
                then Some ((), Suc (length ws - length (takeWhile (\<lambda>c. c \<noteq> nl) (rev ws))))
                else None))"

text \<open>
  The pattern \<open>(?<=[.!?])\s+\<close>: a run of whitespace whose preceding character ends a
  sentence.
\<close>

definition sentence_sep :: "char option \<Rightarrow> string \<Rightarrow> (unit \<times> nat) option" where
  "sentence_sep prev s =
     (if prev \<in> {Some CHR ''.'', Some CHR ''!'', Some CHR ''?''} \<and> s \<noteq> [] \<and> is_space (hd s)
      then Some ((), length (takeWhile is_space s))
      else None)"

text \<open>A piece of the text, stripped, with its start; an empty piece is not recorded.\<close>

definition stripped_piece :: "string \<Rightarrow> nat \<Rightarrow> (string \<times> nat) list" where
  "stripped_piece piece start = (if strip piece \<noteq> [] then [(strip piece, start)] else [])"

text \<open>
  \<open>split_into_paragraphs\<close>: the loop over the matches, then the last paragraph.
\<close>

fun para_loop :: "string \<Rightarrow> nat \<Rightarrow> (unit \<times> nat \<times> nat) list \<Rightarrow> (string \<times> nat) list" where
  "para_loop text current_pos [] =
     (if current_pos < length text then stripped_piece (drop current_pos text) current_pos
      else [])"
| "para_loop text current_pos ((u, match_start, match_end) # ms) =
     stripped_piece (slice text current_pos match_start) current_pos @
     para_loop text match_end ms"

definition split_into_paragraphs :: "string \<Rightarrow> (string \<times> nat) list" where
  "split_into_paragraphs text = para_loop text 0 (finditer para_sep None 0 text)"

text \<open>
  \<open>split_into_sentences\<close>: a sentence is \<open>text[current_pos:end_pos + 1]\<close>, stripped.
\<close>

fun sentence_loop :: "string \<Rightarrow> nat \<Rightarrow> (unit \<times> nat \<times> nat) list \<Rightarrow> (string \<times> nat) list" where
  "sentence_loop text current_pos [] =
     (if current_pos < length text then stripped_piece (drop current_pos text) current_pos
      else [])"
| "sentence_loop text current_pos ((u, match_start, match_end) # ms) =
     stripped_piece (slice text current_pos (match_start + 1)) current_pos @
     sentence_loop text match_end ms"

definition split_into_sentences :: "string \<Rightarrow> (string \<times> nat) list" where
  "split_into_sentences text = sentence_loop text 0 (finditer sentence_sep None 0 text)"

text \<open>
  \<open>extract_page_number\<close>: \<open>re.search(r"\[PAGE (\d+)\]", text)\<close>, the leftmost marker.
\<close>

definition is_digit :: "char \<Rightarrow> bool" where
  "is_digit c = (48 \<le> (of_char c :: nat) \<and> (of_char c :: nat) \<le> 57)"

definition page_marker :: "string \<Rightarrow> string option" where
  "page_marker s =
     (if prefix ''[PAGE '' s then
        (let r = drop 6 s; ds = takeWhile is_digit r in
         if ds \<noteq> [] \<and> prefix '']'' (drop (length ds) r) then Some ds else None)
      else None)"

fun extract_page_number :: "string \<Rightarrow> string option" where
  "extract_page_number [] = None"
| "extract_page_number (c # cs) =
     (case page_marker (c # cs) of
        Some ds \<Rightarrow> Some (''p.'' @ ds)
      | None \<Rightarrow> extract_page_number cs)"

text \<open>
  The pattern \<open>^(#{1,6})\s+(.+)$\<close> with \<open>re.MULTILINE\<close>: at the start of the text or after
  a newline, one to six hashes (a seventh hash cannot be followed by whitespace), then
  \<open>heading_tail\<close>. The capture is group 2.
\<close>

definition heading_at :: "char option \<Rightarrow> string \<Rightarrow> (string \<times> nat) option" where
  "heading_at prev s =
     (if prev = None \<or> prev = Some nl then
        (let nh = length (takeWhile (\<lambda>c. c = CHR ''#'') s) in
         if 1 \<le> nh \<and> nh \<le> 6 then
           (case heading_tail (drop nh s) of
              None \<Rightarrow> None
            | Some (g, n) \<Rightarrow> Some (g, nh + n))
         else None)
      else None)"

definition extract_markdown_section :: "string \<Rightarrow> string option" where
  "extract_markdown_section text =
     (case finditer heading_at None 0 text of
        [] \<Rightarrow> None
      | h # hs \<Rightarrow> Some (strip (fst (last (h # hs)))))"

definition find_section_context :: "string \<Rightarrow> int \<Rightarrow> string option" where
  "find_section_context full_text position =
     (let text_before = py_take position full_text;
          window = (if length text_before > 500
                    then drop (length text_before - 500) text_before else text_before)
      in case extract_page_number window of
           Some page \<Rightarrow> Some page
         | None \<Rightarrow>
             (case extract_markdown_section text_before of
                None \<Rightarrow> None
              | Some section \<Rightarrow> if section \<noteq> [] then Some (''## '' @ section) else None))"

text \<open>
  The main loop of \<open>chunk_text\<close> over the paragraphs. The state is \<open>chunks\<close>,
  \<open>chunk_index\<close>, \<open>current_chunk_text\<close> and \<open>current_chunk_start\<close>.
\<close>

definition make_chunk :: "string \<Rightarrow> string \<Rightarrow> int \<Rightarrow> int \<Rightarrow> TextChunk" where
  "make_chunk text cur start idx =
     \<lparr> content = strip cur,
       page_or_section = find_section_context text start,
       chunk_index = idx,
       start_char = start,
       end_char = start + int (length cur),
       token_count = estimate_tokens cur \<rparr>"

definition chunk_step ::
  "string \<Rightarrow> int \<Rightarrow> int \<Rightarrow> TextChunk list \<times> int \<times> string \<times> int \<Rightarrow> string \<times> nat \<Rightarrow>
   TextChunk list \<times> int \<times> string \<times> int" where
  "chunk_step text max_tokens overlap_chars st para =
     (case st of (done, idx, cur, start) \<Rightarrow>
      case para of (para_text, para_start) \<Rightarrow>
        if cur \<noteq> [] \<and> estimate_tokens cur + estimate_tokens para_text > max_tokens then
          (if overlap_chars > 0 \<and> int (length cur) > overlap_chars then
             (let overlap_text = drop (length cur - nat overlap_chars) cur in
              (done @ [make_chunk text cur start idx], idx + 1,
               overlap_text @ [nl, nl] @ para_text,
               int para_start - int (length overlap_text)))
           else
             (done @ [make_chunk text cur start idx], idx + 1, para_text, int para_start))
        else if cur \<noteq> [] then (done, idx, cur @ [nl, nl] @ para_text, start)
        else (done, idx, para_text, int para_start))"

fun chunk_loop ::
  "string \<Rightarrow> int \<Rightarrow> int \<Rightarrow> (string \<times> nat) list \<Rightarrow> TextChunk list \<times> int \<times> string \<times> int \<Rightarrow>
   TextChunk list \<times> int \<times> string \<times> int" where
  "chunk_loop text max_tokens overlap_chars [] st = st"
| "chunk_loop text max_tokens overlap_chars (para # paras) st =
     chunk_loop text max_tokens overlap_chars paras
       (chunk_step text max_tokens overlap_chars st para)"

text \<open>
  \<open>_split_large_chunks\<close>: a chunk above \<open>max_tokens\<close> is packed again from its sentences;
  the state of the inner loop is \<open>current_text\<close> and \<open>current_start\<close>.
\<close>

definition sub_chunk :: "TextChunk \<Rightarrow> string \<Rightarrow> int \<Rightarrow> TextChunk" where
  "sub_chunk chunk cur start =
     \<lparr> content = strip cur,
       page_or_section = page_or_section chunk,
       chunk_index = chunk_index chunk,
       start_char = start,
       end_char = start + int (length cur),
       token_count = estimate_tokens cur \<rparr>"

fun sentence_pack ::
  "TextChunk \<Rightarrow> int \<Rightarrow> (string \<times> nat) list \<Rightarrow> string \<Rightarrow> int \<Rightarrow> TextChunk list" where
  "sentence_pack chunk max_tokens [] cur start =
     (if strip cur \<noteq> [] then [sub_chunk chunk cur start] else [])"
| "sentence_pack chunk max_tokens ((sentence, rel_pos) # ss) cur start =
     (if cur \<noteq> [] \<and> estimate_tokens cur + estimate_tokens sentence > max_tokens
      then sub_chunk chunk cur start #
           sentence_pack chunk max_tokens ss sentence (start_char chunk + int rel_pos)
      else sentence_pack chunk max_tokens ss
             (if cur \<noteq> [] then cur @ '' '' @ sentence else sentence) start)"

definition split_chunk :: "int \<Rightarrow> TextChunk \<Rightarrow> TextChunk list" where
  "split_chunk max_tokens chunk =
     (if token_count chunk \<le> max_tokens then [chunk]
      else sentence_pack chunk max_tokens (split_into_sentences (content chunk)) []
             (start_char chunk))"

definition split_large_chunks :: "TextChunk list \<Rightarrow> int \<Rightarrow> TextChunk list" where
  "split_large_chunks chunks max_tokens = concat (map (split_chunk max_tokens) chunks)"

text \<open>\<open>for i, chunk in enumerate(chunks): chunk.chunk_index = i\<close>.\<close>

definition reindex :: "TextChunk list \<Rightarrow> TextChunk list" where
  "reindex chunks = map (\<lambda>(i, chunk). chunk\<lparr>chunk_index := int i\<rparr>) (enumerate 0 chunks)"

text \<open>\<open>chunk_text\<close>; the argument \<open>file_type\<close> is not used by the code.\<close>

definition chunk_text :: "string \<Rightarrow> string \<Rightarrow> int \<Rightarrow> int \<Rightarrow> int \<Rightarrow> TextChunk list" where
  "chunk_text text file_type min_tokens max_tokens overlap_tokens =
     (if strip text = [] then []
      else
        (let overlap_chars = tokens_to_chars overlap_tokens;
             paragraphs0 = split_into_paragraphs text;
             paragraphs = (if paragraphs0 = [] then [(strip text, 0)] else paragraphs0);
             st = chunk_loop text max_tokens overlap_chars paragraphs ([], 0, [], 0);
             chunks = (case st of (done, idx, cur, start) \<Rightarrow>
                         if strip cur \<noteq> [] then done @ [make_chunk text cur start idx]
                         else done)
         in reindex (split_large_chunks (merge_small_chunks chunks min_tokens) max_tokens)))"

section \<open>Records and rows (noctem/models.py)\<close>

type_synonym timestamp = nat

datatype error =
    ZeroDivisionError
  | FileNotFoundError string
  | IsADirectoryError string
  | ValueError string
  | ServiceError string

text \<open>
  A row of the \<open>sources\<close> table. The columns that \<open>Source.from_row\<close> reads with
  \<open>or\<close> and a default (\<open>trust_level\<close>, \<open>status\<close>, \<open>chunk_count\<close>) may be NULL.
\<close>

record source_row =
  row_id :: int
  row_file_path :: string
  row_file_type :: "string option"
  row_file_name :: "string option"
  row_title :: "string option"
  row_author :: "string option"
  row_file_hash :: "string option"
  row_file_size_bytes :: "int option"
  row_trust_level :: "int option"
  row_status :: "string option"
  row_chunk_count :: "int option"
  row_ingested_at :: "timestamp option"
  row_last_verified :: "timestamp option"
  row_error_message :: "string option"
  row_created_at :: "timestamp option"

record Source =
  src_id :: "int option"
  file_path :: string
  file_type :: "string option"
  file_name :: "string option"
  title :: "string option"
  author :: "string option"
  file_hash :: "string option"
  file_size_bytes :: "int option"
  trust_level :: int
  status :: string
  chunk_count :: int
  ingested_at :: "timestamp option"
  last_verified :: "timestamp option"
  error_message :: "string option"
  created_at :: "timestamp option"

text \<open>\<open>row[c] or d\<close> on an integer column: NULL and 0 are both falsy.\<close>

definition int_or :: "int option \<Rightarrow> int \<Rightarrow> int" where
  "int_or v d = (case v of None \<Rightarrow> d | Some n \<Rightarrow> if n = 0 then d else n)"

definition str_or :: "string option \<Rightarrow> string \<Rightarrow> string" where
  "str_or v d = (case v of None \<Rightarrow> d | Some s \<Rightarrow> if s = [] then d else s)"

definition Source_from_row :: "source_row \<Rightarrow> Source" where
  "Source_from_row row =
     \<lparr> src_id = Some (row_id row),
       file_path = row_file_path row,
       file_type = row_file_type row,
       file_name = row_file_name row,
       title = row_title row,
       author = row_author row,
       file_hash = row_file_hash row,
       file_size_bytes = row_file_size_bytes row,
       trust_level = int_or (row_trust_level row) 1,
       status = str_or (row_status row) ''pending'',
       chunk_count = int_or (row_chunk_count row) 0,
       ingested_at = row_ingested_at row,
       last_verified = row_last_verified row,
       error_message = row_error_message row,
       created_at = row_created_at row \<rparr>"

text \<open>A row of the \<open>knowledge_chunks\<close> table.\<close>

record chunk_row =
  crow_id :: int
  crow_source_id :: int
  crow_chunk_id :: string
  crow_content :: string
  crow_page_or_section :: "string option"
  crow_chunk_index :: "int option"
  crow_token_count :: "int option"
  crow_start_char :: "int option"
  crow_end_char :: "int option"
  crow_created_at :: "timestamp option"

text \<open>
  \<open>KnowledgeChunk\<close>; its fields carry the prefix \<open>kc_\<close> to keep them apart from the
  fields of \<open>TextChunk\<close>.
\<close>

record KnowledgeChunk =
  kc_id :: "int option"
  kc_source_id :: int
  kc_chunk_id :: string
  kc_content :: string
  kc_page_or_section :: "string option"
  kc_chunk_index :: int
  kc_token_count :: "int option"
  kc_start_char :: "int option"
  kc_end_char :: "int option"
  kc_created_at :: "timestamp option"
  kc_source :: "Source option"
  kc_similarity_score :: "real option"

definition KnowledgeChunk_from_row :: "chunk_row \<Rightarrow> KnowledgeChunk" where
  "KnowledgeChunk_from_row row =
     \<lparr> kc_id = Some (crow_id row),
       kc_source_id = crow_source_id row,
       kc_chunk_id = crow_chunk_id row,
       kc_content = crow_content row,
       kc_page_or_section = crow_page_or_section row,
       kc_chunk_index = int_or (crow_chunk_index row) 0,
       kc_token_count = crow_token_count row,
       kc_start_char = crow_start_char row,
       kc_end_char = crow_end_char row,
       kc_created_at = crow_created_at row,
       kc_source = None,
       kc_similarity_score = None \<rparr>"

text \<open>
  The relational store: \<open>sources\<close> by primary key, \<open>knowledge_chunks\<close> by the unique
  column \<open>chunk_id\<close>.
\<close>

record db =
  sources :: "int \<rightharpoonup> source_row"
  knowledge_chunks :: "string \<rightharpoonup> chunk_row"

definition get_source_by_id :: "db \<Rightarrow> int \<Rightarrow> Source option" where
  "get_source_by_id d i = map_option Source_from_row (sources d i)"

definition get_chunk_by_id :: "db \<Rightarrow> string \<Rightarrow> KnowledgeChunk option" where
  "get_chunk_by_id d cid = map_option KnowledgeChunk_from_row (knowledge_chunks d cid)"

section \<open>Retrieval (noctem/wiki/retrieval.py)\<close>

record SearchResult =
  chunk :: KnowledgeChunk
  source :: Source
  similarity_score :: real
  citation_ref :: string

text \<open>
  Floating-point numbers. A double is read as the real number it denotes, so doubles are
  compared as reals; \<open>rnd\<close> is the rounding of the double arithmetic (round to nearest):
  the double result of an operation is \<open>rnd\<close> of its exact result, and the double that
  an integer converts to is \<open>rnd\<close> of the integer. \<open>rnd\<close> is a parameter of every
  function that computes with doubles.

  \<open>trust_weight\<close> is \<open>1.0 / self.source.trust_level\<close>: the integer (a 64-bit column
  value) is converted to a double and divides 1.0; a zero divisor raises.
  \<open>weighted_score\<close> is the double product \<open>similarity_score * trust_weight\<close>.
\<close>

definition trust_weight :: "(real \<Rightarrow> real) \<Rightarrow> SearchResult \<Rightarrow> error + real" where
  "trust_weight rnd r =
     (if trust_level (source r) = 0 then Inl ZeroDivisionError
      else Inr (rnd (1 / rnd (real_of_int (trust_level (source r))))))"

definition weighted_score :: "(real \<Rightarrow> real) \<Rightarrow> SearchResult \<Rightarrow> error + real" where
  "weighted_score rnd r =
     (case trust_weight rnd r of
        Inl e \<Rightarrow> Inl e
      | Inr w \<Rightarrow> Inr (rnd (similarity_score r * w)))"

text \<open>Truthiness of an optional string: \<open>None\<close> and \<open>""\<close> are falsy.\<close>

definition truthy :: "string option \<Rightarrow> bool" where
  "truthy v = (case v of None \<Rightarrow> False | Some s \<Rightarrow> s \<noteq> [])"

text \<open>An optional string inside an f-string: \<open>None\<close> is rendered as the word.\<close>

definition fmt_opt :: "string option \<Rightarrow> string" where
  "fmt_opt v = (case v of None \<Rightarrow> ''None'' | Some s \<Rightarrow> s)"

text \<open>
  One iteration of the loop of \<open>search\<close> on a hit \<open>(chunk_id, similarity, metadata)\<close>
  of the vector index: \<open>None\<close> is a \<open>continue\<close>, \<open>Some r\<close> is \<open>results.append(r)\<close>.
\<close>

definition search_hit ::
  "db \<Rightarrow> int option \<Rightarrow> string \<times> real \<times> 'm \<Rightarrow> SearchResult option" where
  "search_hit d tl_filter hit =
     (case hit of (chunk_id, similarity, metadata) \<Rightarrow>
        (case get_chunk_by_id d chunk_id of
           None \<Rightarrow> None
         | Some ch \<Rightarrow>
             (case get_source_by_id d (kc_source_id ch) of
                None \<Rightarrow> None
              | Some src \<Rightarrow>
                  if (case tl_filter of None \<Rightarrow> False | Some t \<Rightarrow> trust_level src > t)
                  then None
                  else Some
                    \<lparr> chunk = ch\<lparr>kc_source := Some src, kc_similarity_score := Some similarity\<rparr>,
                      source = src,
                      similarity_score = similarity,
                      citation_ref = fmt_opt (file_name src) @
                        (if truthy (kc_page_or_section ch)
                         then '', '' @ the (kc_page_or_section ch) else []) \<rparr>)))"

fun search_loop ::
  "db \<Rightarrow> int option \<Rightarrow> (string \<times> real \<times> 'm) list \<Rightarrow> SearchResult list" where
  "search_loop d tl_filter [] = []"
| "search_loop d tl_filter (hit # raw) =
     (case search_hit d tl_filter hit of
        None \<Rightarrow> search_loop d tl_filter raw
      | Some r \<Rightarrow> r # search_loop d tl_filter raw)"

text \<open>
  \<open>results.sort(key=lambda r: r.weighted_score, reverse=True)\<close>: the keys are computed
  first (a key that raises aborts the sort), and the sort is stable with equal keys left
  in their original order, which is what reversing, sorting ascending and reversing does.
\<close>

fun score_all ::
  "(real \<Rightarrow> real) \<Rightarrow> SearchResult list \<Rightarrow> error + (real \<times> SearchResult) list" where
  "score_all rnd [] = Inr []"
| "score_all rnd (r # rs) =
     (case weighted_score rnd r of
        Inl e \<Rightarrow> Inl e
      | Inr w \<Rightarrow>
          (case score_all rnd rs of Inl e \<Rightarrow> Inl e | Inr ks \<Rightarrow> Inr ((w, r) # ks)))"

definition sort_by_weighted_score ::
  "(real \<Rightarrow> real) \<Rightarrow> SearchResult list \<Rightarrow> error + SearchResult list" where
  "sort_by_weighted_score rnd rs =
     (case score_all rnd rs of
        Inl e \<Rightarrow> Inl e
      | Inr ks \<Rightarrow> Inr (map snd (rev (sort_key fst (rev ks)))))"

text \<open>
  \<open>search\<close>. The embedding service and the vector index are outside the repository's
  relational code: \<open>search_similar\<close> is the function of noctem/wiki/embeddings.py as a
  parameter, returning its hits or the error it raised.
\<close>

definition search ::
  "(real \<Rightarrow> real) \<Rightarrow>
   (string \<Rightarrow> int \<Rightarrow> string \<Rightarrow> int list option \<Rightarrow> error + (string \<times> real \<times> 'm) list) \<Rightarrow>
   db \<Rightarrow> string \<Rightarrow> int \<Rightarrow> int option \<Rightarrow> int list option \<Rightarrow> string \<Rightarrow>
   error + SearchResult list" where
  "search rnd search_similar d query n_results tl_filter source_ids model =
     (case search_similar query (n_results * 2) model source_ids of
        Inl e \<Rightarrow> Inl e
      | Inr raw_results \<Rightarrow>
          (case sort_by_weighted_score rnd (search_loop d tl_filter raw_results) of
             Inl e \<Rightarrow> Inl e
           | Inr results \<Rightarrow> Inr (py_take n_results results)))"

text \<open>\<open>str(i)\<close> for a natural number, in decimal.\<close>

definition digit_char :: "nat \<Rightarrow> char" where
  "digit_char d = ''0123456789'' ! d"

fun str_of_nat :: "nat \<Rightarrow> string" where
  "str_of_nat n =
     (if n < 10 then [digit_char n]
      else str_of_nat (n div 10) @ [digit_char (n mod 10)])"

declare str_of_nat.simps [simp del]

fun join :: "string \<Rightarrow> string list \<Rightarrow> string" where
  "join sep [] = []"
| "join sep [x] = x"
| "join sep (x # y # ys) = x @ sep @ join sep (y # ys)"

definition chunk_tokens :: "SearchResult \<Rightarrow> int" where
  "chunk_tokens r =
     (case kc_token_count (chunk r) of
        None \<Rightarrow> int (length (kc_content (chunk r))) div 4
      | Some t \<Rightarrow> if t = 0 then int (length (kc_content (chunk r))) div 4 else t)"

definition context_part :: "nat \<Rightarrow> SearchResult \<Rightarrow> string" where
  "context_part i r =
     ''['' @ str_of_nat i @ ''] Source: '' @ citation_ref r @ [nl] @ kc_content (chunk r) @ [nl]"

text \<open>
  The loop of \<open>get_context_for_query\<close> over \<open>enumerate(results, start=1)\<close>; the \<open>break\<close>
  ends it with the parts collected so far.
\<close>

fun context_loop :: "nat \<Rightarrow> int \<Rightarrow> int \<Rightarrow> SearchResult list \<Rightarrow> string list" where
  "context_loop i total_tokens max_tokens [] = []"
| "context_loop i total_tokens max_tokens (r # rs) =
     (if total_tokens + chunk_tokens r > max_tokens then []
      else context_part i r #
           context_loop (Suc i) (total_tokens + chunk_tokens r) max_tokens rs)"

text \<open>The separator \<open>"\n---\n"\<close> between the parts of the context.\<close>

definition SEP :: string where
  "SEP = [nl, CHR ''-'', CHR ''-'', CHR ''-'', nl]"

text \<open>The part of \<open>get_context_for_query\<close> after the call of \<open>search\<close>.\<close>

definition assemble_context :: "SearchResult list \<Rightarrow> int \<Rightarrow> string \<times> SearchResult list" where
  "assemble_context results max_tokens =
     (if results = [] then ([], [])
      else (let context_parts = context_loop 1 0 max_tokens results
            in (join SEP context_parts,
                take (length context_parts) results)))"

definition get_context_for_query ::
  "(real \<Rightarrow> real) \<Rightarrow>
   (string \<Rightarrow> int \<Rightarrow> string \<Rightarrow> int list option \<Rightarrow> error + (string \<times> real \<times> 'm) list) \<Rightarrow>
   db \<Rightarrow> string \<Rightarrow> string \<Rightarrow> int \<Rightarrow> int \<Rightarrow> int option \<Rightarrow>
   error + string \<times> SearchResult list" where
  "get_context_for_query rnd search_similar d model query n_chunks max_tokens tl_filter =
     (case search rnd search_similar d query n_chunks tl_filter None model of
        Inl e \<Rightarrow> Inl e
      | Inr results \<Rightarrow> Inr (assemble_context results max_tokens))"

section \<open>Ingestion (noctem/wiki/ingestion.py)\<close>

text \<open>
  The file system, as far as the ingestion code reads it: a path names a regular file with
  its content, a directory, or nothing. The hash function of \<open>compute_file_hash\<close>
  (SHA-256 of hashlib) and \<open>Path.resolve\<close> are parameters.
\<close>

datatype fs_entry = RegularFile string | Directory

type_synonym filesystem = "string \<rightharpoonup> fs_entry"

text \<open>\<open>Path.name\<close>, \<open>Path.suffix\<close> and \<open>Path.stem\<close> of a path without a trailing slash.\<close>

definition path_name :: "string \<Rightarrow> string" where
  "path_name p = rev (takeWhile (\<lambda>c. c \<noteq> CHR ''/'') (rev p))"

text \<open>
  \<open>name.rfind('.')\<close> as the number of characters after the last dot; the suffix exists when
  the dot is neither the first nor the last character of the name.
\<close>

definition has_suffix :: "string \<Rightarrow> bool" where
  "has_suffix name =
     (CHR ''.'' \<in> set name
      \<and> takeWhile (\<lambda>c. c \<noteq> CHR ''.'') (rev name) \<noteq> []
      \<and> Suc (length (takeWhile (\<lambda>c. c \<noteq> CHR ''.'') (rev name))) < length name)"

definition path_suffix :: "string \<Rightarrow> string" where
  "path_suffix p =
     (let name = path_name p in
      if has_suffix name
      then drop (length name - Suc (length (takeWhile (\<lambda>c. c \<noteq> CHR ''.'') (rev name)))) name
      else [])"

definition path_stem :: "string \<Rightarrow> string" where
  "path_stem p =
     (let name = path_name p in
      if has_suffix name
      then take (length name - Suc (length (takeWhile (\<lambda>c. c \<noteq> CHR ''.'') (rev name)))) name
      else name)"

definition detect_file_type :: "string \<Rightarrow> string option" where
  "detect_file_type p =
     map_of [(''.pdf'', ''pdf''), (''.md'', ''md''), (''.markdown'', ''md''),
             (''.txt'', ''txt''), (''.text'', ''txt'')]
       (lower (path_suffix p))"

text \<open>
  \<open>extract_title_from_markdown\<close>: \<open>re.match(r"^#\s+(.+)$", content.strip(), re.MULTILINE)\<close>.
  \<open>re.match\<close> matches at the start of the string only.
\<close>

definition extract_title_from_markdown :: "string \<Rightarrow> string option" where
  "extract_title_from_markdown md_text =
     (case strip md_text of
        [] \<Rightarrow> None
      | c # rest \<Rightarrow>
          if c = CHR ''#'' then
            (case heading_tail rest of
               None \<Rightarrow> None
             | Some (g, _) \<Rightarrow> Some (strip g))
          else None)"

text \<open>\<open>UPDATE sources SET ... WHERE id = ?\<close>: the row with that key, when there is one.\<close>

definition update_source :: "db \<Rightarrow> int option \<Rightarrow> (source_row \<Rightarrow> source_row) \<Rightarrow> db" where
  "update_source d i f =
     (case i of
        None \<Rightarrow> d
      | Some k \<Rightarrow>
          (case sources d k of
             None \<Rightarrow> d
           | Some row \<Rightarrow> d\<lparr>sources := (sources d)(k \<mapsto> f row)\<rparr>))"

text \<open>
  \<open>create_source\<close>. \<open>pdf_metadata\<close> is the title and author that PyMuPDF reads from a PDF
  file; \<open>new_id\<close> is the key that the store gives the inserted row; \<open>now\<close> is
  \<open>CURRENT_TIMESTAMP\<close>.
\<close>

definition create_source ::
  "(string \<Rightarrow> string) \<Rightarrow> (string \<Rightarrow> string) \<Rightarrow> (string \<Rightarrow> string \<times> string) \<Rightarrow> filesystem \<Rightarrow>
   int \<Rightarrow> timestamp \<Rightarrow> db \<Rightarrow> string \<Rightarrow> int \<Rightarrow> string option \<Rightarrow> string option \<Rightarrow>
   error + db \<times> Source option" where
  "create_source resolve sha256 pdf_metadata fs new_id now d path trust title0 author0 =
     (let file_path = resolve path in
      case fs file_path of
        None \<Rightarrow> Inl (FileNotFoundError (''File not found: '' @ file_path))
      | Some entry \<Rightarrow>
          (case detect_file_type file_path of
             None \<Rightarrow> Inl (ValueError (''Unsupported file type: '' @ path_suffix file_path))
           | Some ftype \<Rightarrow>
               (case entry of
                  Directory \<Rightarrow> Inl (IsADirectoryError file_path)
                | RegularFile data \<Rightarrow>
                    (let file_hash = sha256 data;
                         file_size = int (length data);
                         file_name = path_name file_path;
                         title1 =
                           (if truthy title0 then title0
                            else if ftype = ''md'' then extract_title_from_markdown data
                            else if ftype = ''pdf'' then
                              (if fst (pdf_metadata file_path) = [] then None
                               else Some (fst (pdf_metadata file_path)))
                            else title0);
                         author1 =
                           (if \<not> truthy title0 \<and> ftype = ''pdf'' \<and> \<not> truthy author0
                            then (if snd (pdf_metadata file_path) = [] then None
                                  else Some (snd (pdf_metadata file_path)))
                            else author0);
                         title2 = (if truthy title1 then title1 else Some (path_stem file_path));
                         row =
                           \<lparr> row_id = new_id, row_file_path = file_path,
                             row_file_type = Some ftype, row_file_name = Some file_name,
                             row_title = title2, row_author = author1,
                             row_file_hash = Some file_hash,
                             row_file_size_bytes = Some file_size,
                             row_trust_level = Some trust, row_status = Some ''pending'',
                             row_chunk_count = None, row_ingested_at = None,
                             row_last_verified = None, row_error_message = None,
                             row_created_at = Some now \<rparr>;
                         d' = d\<lparr>sources := (sources d)(new_id \<mapsto> row)\<rparr>
                     in Inr (d', get_source_by_id d' new_id)))))"

text \<open>
  \<open>verify_source\<close>: the new state of the store and the returned flag. Hashing a path that
  is a directory raises.
\<close>

definition verify_source ::
  "(string \<Rightarrow> string) \<Rightarrow> filesystem \<Rightarrow> timestamp \<Rightarrow> db \<Rightarrow> Source \<Rightarrow> error + db \<times> bool" where
  "verify_source sha256 fs now d src =
     (case fs (file_path src) of
        None \<Rightarrow>
          Inr (update_source d (src_id src)
                 (\<lambda>r. r\<lparr>row_status := Some ''failed'',
                          row_error_message := Some ''File not found''\<rparr>),
               False)
      | Some Directory \<Rightarrow> Inl (IsADirectoryError (file_path src))
      | Some (RegularFile data) \<Rightarrow>
          (let current_hash = sha256 data;
               d1 = update_source d (src_id src) (\<lambda>r. r\<lparr>row_last_verified := Some now\<rparr>)
           in if Some current_hash \<noteq> file_hash src
              then Inr (update_source d1 (src_id src) (\<lambda>r. r\<lparr>row_status := Some ''changed''\<rparr>),
                        False)
              else Inr (d1, True)))"

text \<open>
  A directory tree for \<open>Path.glob\<close>: the entries of a directory by name. A path below the
  scanned directory is the list of its components.
\<close>

datatype node = File | Dir "(string \<times> node) list"

text \<open>The pattern \<open>*ext\<close>: a name that ends with \<open>ext\<close>.\<close>

definition select_matches ::
  "string \<Rightarrow> string list \<Rightarrow> (string \<times> node) list \<Rightarrow> string list list" where
  "select_matches ext pre entries =
     map (\<lambda>e. pre @ [fst e]) (filter (\<lambda>e. suffix ext (fst e)) entries)"

text \<open>The directories that \<open>**\<close> visits: the directory itself, then its subdirectories.\<close>

fun walk :: "string list \<Rightarrow> (string \<times> node) list \<Rightarrow> (string list \<times> (string \<times> node) list) list"
  and walk_entries :: "string list \<Rightarrow> (string \<times> node) list \<Rightarrow> (string list \<times> (string \<times> node) list) list"
where
  "walk pre entries = (pre, entries) # walk_entries pre entries"
| "walk_entries pre [] = []"
| "walk_entries pre ((n, File) # es) = walk_entries pre es"
| "walk_entries pre ((n, Dir sub) # es) = walk (pre @ [n]) sub @ walk_entries pre es"

definition glob_top :: "string \<Rightarrow> (string \<times> node) list \<Rightarrow> string list list" where
  "glob_top ext entries = select_matches ext [] entries"

definition glob_recursive :: "string \<Rightarrow> (string \<times> node) list \<Rightarrow> string list list" where
  "glob_recursive ext entries =
     concat (map (\<lambda>(pre, es). select_matches ext pre es) (walk [] entries))"

definition SUPPORTED_EXTENSIONS :: "string set" where
  "SUPPORTED_EXTENSIONS = {''.pdf'', ''.md'', ''.txt''}"

definition tracked_paths :: "db \<Rightarrow> string set" where
  "tracked_paths d = row_file_path ` ran (sources d)"

text \<open>
  \<open>discover_new_sources\<close> on the entries of \<open>directory\<close>; \<open>exts\<close> is the order in which
  the set \<open>SUPPORTED_EXTENSIONS\<close> is iterated.
\<close>

definition discover_new_sources ::
  "string list \<Rightarrow> (string list \<Rightarrow> string) \<Rightarrow> db \<Rightarrow> (string \<times> node) list \<Rightarrow> string list list" where
  "discover_new_sources exts resolve d entries =
     (let all_files = concat (map (\<lambda>ext. glob_top ext entries @ glob_recursive ext entries) exts)
      in filter (\<lambda>file_path. resolve file_path \<notin> tracked_paths d) all_files)"

section \<open>Query (noctem/wiki/query.py)\<close>

record WikiAnswer =
  answer :: string
  sources_used :: "SearchResult list"
  citations :: string
  query :: string
  model_used :: string
  context_tokens :: int

definition has_answer :: "WikiAnswer \<Rightarrow> bool" where
  "has_answer a =
     (answer a \<noteq> [] \<and> \<not> py_in ''don't have enough information'' (lower (answer a)))"

section \<open>Notions of the specification and example data\<close>

text \<open>The canonical escape phrase of the system prompt \<open>WIKI_QA_SYSTEM_PROMPT\<close> (rule 2).\<close>

definition ESCAPE_PHRASE :: string where
  "ESCAPE_PHRASE = ''I don't have enough information in my sources to answer this question.''"

text \<open>\<open>phrase\<close> occurs in \<open>s\<close> as a case-insensitive substring.\<close>

definition contains_ci :: "string \<Rightarrow> string \<Rightarrow> bool" where
  "contains_ci phrase s = sublist (lower phrase) (lower s)"

definition ex_chunk :: "string \<Rightarrow> int \<Rightarrow> TextChunk" where
  "ex_chunk s n =
     \<lparr> content = s, page_or_section = None, chunk_index = 0, start_char = 0,
       end_char = int (length s), token_count = n \<rparr>"

definition ex_answer :: "string \<Rightarrow> WikiAnswer" where
  "ex_answer s =
     \<lparr> answer = s, sources_used = [], citations = [], query = ''q'', model_used = ''m'',
       context_tokens = 0 \<rparr>"

text \<open>
  The weighted score of the specification, in double arithmetic: the similarity times the
  trust weight \<open>1 / trust_level\<close>, each operation rounded.
\<close>

definition score_of :: "(real \<Rightarrow> real) \<Rightarrow> SearchResult \<Rightarrow> real" where
  "score_of rnd r =
     rnd (similarity_score r * rnd (1 / rnd (real_of_int (trust_level (source r)))))"


text \<open>The rounding of the examples: every number of the examples is taken as it is.\<close>

definition ex_rnd :: "real \<Rightarrow> real" where
  "ex_rnd x = x"

text \<open>
  A hit of the vector index is stale when its fragment row, or the document row that the
  fragment row names, is missing from the relational store.
\<close>

definition stale :: "db \<Rightarrow> string \<times> real \<times> 'm \<Rightarrow> bool" where
  "stale d hit =
     (case get_chunk_by_id d (fst hit) of
        None \<Rightarrow> True
      | Some ch \<Rightarrow> get_source_by_id d (kc_source_id ch) = None)"

text \<open>
  The citation markers present in a text: the positions at which the text reads \<open>[\<close>, one
  or more decimal digits, and \<open>] Source: \<close>.
\<close>

definition marker_at :: "string \<Rightarrow> bool" where
  "marker_at s =
     (case s of
        [] \<Rightarrow> False
      | c # rest \<Rightarrow>
          c = CHR ''['' \<and> takeWhile is_digit rest \<noteq> []
          \<and> prefix ''] Source: '' (dropWhile is_digit rest))"

fun count_markers :: "string \<Rightarrow> nat" where
  "count_markers [] = 0"
| "count_markers (c # s) = (if marker_at (c # s) then 1 else 0) + count_markers s"

definition ex_source_row :: "int \<Rightarrow> int \<Rightarrow> source_row" where
  "ex_source_row i lvl =
     \<lparr> row_id = i, row_file_path = ''/notes/n.md'', row_file_type = Some ''md'',
       row_file_name = Some ''n.md'', row_title = Some ''n'', row_author = None,
       row_file_hash = Some ''h'', row_file_size_bytes = Some 9,
       row_trust_level = Some lvl, row_status = Some ''indexed'', row_chunk_count = Some 1,
       row_ingested_at = None, row_last_verified = None, row_error_message = None,
       row_created_at = None \<rparr>"

definition ex_chunk_row :: "int \<Rightarrow> int \<Rightarrow> string \<Rightarrow> chunk_row" where
  "ex_chunk_row i sid cid =
     \<lparr> crow_id = i, crow_source_id = sid, crow_chunk_id = cid, crow_content = ''abcd'',
       crow_page_or_section = None, crow_chunk_index = Some 0, crow_token_count = Some 1,
       crow_start_char = Some 0, crow_end_char = Some 4, crow_created_at = None \<rparr>"

definition ex_db :: db where
  "ex_db =
     \<lparr> sources = [1 \<mapsto> ex_source_row 1 1, 2 \<mapsto> ex_source_row 2 2, 3 \<mapsto> ex_source_row 3 3],
       knowledge_chunks =
         [''c1'' \<mapsto> ex_chunk_row 1 1 ''c1'', ''c2'' \<mapsto> ex_chunk_row 2 2 ''c2'',
          ''c3'' \<mapsto> ex_chunk_row 3 3 ''c3'', ''c4'' \<mapsto> ex_chunk_row 4 9 ''c4''] \<rparr>"

definition ex_result :: "int \<Rightarrow> string \<Rightarrow> real \<Rightarrow> SearchResult" where
  "ex_result i cid sim =
     \<lparr> chunk = (KnowledgeChunk_from_row (ex_chunk_row i i cid))
         \<lparr>kc_source := Some (Source_from_row (ex_source_row i i)),
          kc_similarity_score := Some sim\<rparr>,
       source = Source_from_row (ex_source_row i i),
       similarity_score = sim,
       citation_ref = ''n.md'' \<rparr>"

text \<open>A result whose fragment quotes a citation of an earlier answer.\<close>

definition ex_quoting_result :: SearchResult where
  "ex_quoting_result =
     \<lparr> chunk = (KnowledgeChunk_from_row (ex_chunk_row 1 1 ''c1''))
         \<lparr>kc_content := ''see [9] Source: x'',
          kc_source := Some (Source_from_row (ex_source_row 1 1)),
          kc_similarity_score := Some (1 / 2)\<rparr>,
       source = Source_from_row (ex_source_row 1 1),
       similarity_score = 1 / 2,
       citation_ref = ''n.md'' \<rparr>"


definition ex_hits :: "(string \<times> real \<times> unit) list" where
  "ex_hits = [(''c3'', (4 / 5), ()), (''gone'', (9 / 10), ()), (''c4'', (9 / 10), ()),
              (''c2'', (4 / 5), ()), (''c1'', (4 / 5), ())]"

definition empty_db :: db where
  "empty_db = \<lparr> sources = Map.empty, knowledge_chunks = Map.empty \<rparr>"

definition ex_markdown :: string where
  "ex_markdown = ''Intro line'' @ [nl] @ ''# Real Title'' @ [nl]"

definition ex_entries :: "(string \<times> node) list" where
  "ex_entries = [(''doc1.txt'', File), (''doc2.md'', File), (''ignored.docx'', File),
                 (''sub'', Dir [(''deep.md'', File)])]"

definition ex_resolve :: "string list \<Rightarrow> string" where
  "ex_resolve p = concat (map (\<lambda>c. CHR ''/'' # c) (''w'' # p))"

section \<open>Claims\<close>

subsection \<open>Strings\<close>

lemma py_in_sublist: "py_in sub s \<longleftrightarrow> sublist sub s"
  by (induction s) (auto simp: sublist_Cons_right)

subsection \<open>Retrieval: helper lemmas\<close>

lemma trust_level_from_row: "trust_level (Source_from_row row) \<noteq> 0"
  by (simp add: Source_from_row_def int_or_def split: option.split)

lemma get_source_nonzero: "get_source_by_id d i = Some s \<Longrightarrow> trust_level s \<noteq> 0"
  by (auto simp: get_source_by_id_def trust_level_from_row)

lemma search_hit_source:
  "search_hit d tf hit = Some r \<Longrightarrow>
     \<exists>ch. get_chunk_by_id d (fst hit) = Some ch \<and>
          get_source_by_id d (kc_source_id ch) = Some (source r) \<and>
          (\<forall>t. tf = Some t \<longrightarrow> trust_level (source r) \<le> t)"
  unfolding search_hit_def
  by (cases hit) (auto split: option.splits if_splits)

lemma search_loop_set:
  "r \<in> set (search_loop d tf raw) \<Longrightarrow> \<exists>hit \<in> set raw. search_hit d tf hit = Some r"
  by (induction raw) (auto split: option.splits)

lemma search_loop_nonzero:
  "r \<in> set (search_loop d tf raw) \<Longrightarrow> trust_level (source r) \<noteq> 0"
  using search_loop_set search_hit_source get_source_nonzero by blast

lemma search_loop_filter:
  "r \<in> set (search_loop d (Some t) raw) \<Longrightarrow> trust_level (source r) \<le> t"
  using search_loop_set search_hit_source by blast

lemma score_all_ok:
  "\<forall>r \<in> set rs. trust_level (source r) \<noteq> 0 \<Longrightarrow>
   score_all rnd rs = Inr (map (\<lambda>r. (score_of rnd r, r)) rs)"
  by (induction rs) (auto simp: weighted_score_def trust_weight_def score_of_def)

lemma sorted_desc_rev_sort:
  "sorted_wrt (\<lambda>a b. f b \<le> f a) (rev (sort_key f xs))"
proof -
  have "sorted (map f (sort_key f xs))" by (rule sorted_sort_key)
  then have "sorted_wrt (\<lambda>a b. f a \<le> f b) (sort_key f xs)"
    by (simp add: sorted_map)
  then show ?thesis by (simp add: sorted_wrt_rev)
qed

lemma sort_by_weighted_score_ok:
  assumes "\<forall>r \<in> set rs. trust_level (source r) \<noteq> 0"
  shows "\<exists>rs'. sort_by_weighted_score rnd rs = Inr rs' \<and> set rs' = set rs \<and>
           length rs' = length rs \<and>
           sorted_wrt (\<lambda>a b. score_of rnd b \<le> score_of rnd a) rs'"
proof -
  let ?ks = "map (\<lambda>r. (score_of rnd r, r)) rs"
  let ?out = "map snd (rev (sort_key fst (rev ?ks)))"
  have eq: "sort_by_weighted_score rnd rs = Inr ?out"
    by (simp add: sort_by_weighted_score_def score_all_ok[OF assms])
  have set_eq: "set ?out = set rs"
    by (simp add: image_image rev_map[symmetric] del: rev_map)
  have len: "length ?out = length rs" by simp
  have pairs: "\<forall>p \<in> set (rev (sort_key fst (rev ?ks))). fst p = score_of rnd (snd p)"
    by auto
  have "sorted_wrt (\<lambda>a b. fst b \<le> fst a) (rev (sort_key fst (rev ?ks)))"
    by (rule sorted_desc_rev_sort)
  then have "sorted_wrt (\<lambda>a b. score_of rnd (snd b) \<le> score_of rnd (snd a)) (rev (sort_key fst (rev ?ks)))"
    using pairs by (auto elim!: sorted_wrt_mono_rel[rotated])
  then have "sorted_wrt (\<lambda>a b. score_of rnd b \<le> score_of rnd a) ?out"
    by (simp add: sorted_wrt_map)
  with eq set_eq len show ?thesis by blast
qed

lemma py_take_props:
  "set (py_take n xs) \<subseteq> set xs"
  "sorted_wrt P xs \<Longrightarrow> sorted_wrt P (py_take n xs)"
  "0 \<le> n \<Longrightarrow> int (length (py_take n xs)) \<le> n"
  by (auto simp: py_take_def dest: in_set_takeD intro: sorted_wrt_take)

lemma ex_sel:
  "kc_source_id (KnowledgeChunk_from_row (ex_chunk_row i sid cid)) = sid"
  "kc_page_or_section (KnowledgeChunk_from_row (ex_chunk_row i sid cid)) = None"
  "file_name (Source_from_row (ex_source_row i lvl)) = Some ''n.md''"
  "lvl \<noteq> 0 \<Longrightarrow> trust_level (Source_from_row (ex_source_row i lvl)) = lvl"
  by (simp_all add: KnowledgeChunk_from_row_def ex_chunk_row_def Source_from_row_def
        ex_source_row_def int_or_def)

lemma ex_get:
  "get_chunk_by_id ex_db ''c1'' = Some (KnowledgeChunk_from_row (ex_chunk_row 1 1 ''c1''))"
  "get_chunk_by_id ex_db ''c2'' = Some (KnowledgeChunk_from_row (ex_chunk_row 2 2 ''c2''))"
  "get_chunk_by_id ex_db ''c3'' = Some (KnowledgeChunk_from_row (ex_chunk_row 3 3 ''c3''))"
  "get_chunk_by_id ex_db ''c4'' = Some (KnowledgeChunk_from_row (ex_chunk_row 4 9 ''c4''))"
  "get_chunk_by_id ex_db ''gone'' = None"
  "get_source_by_id ex_db 1 = Some (Source_from_row (ex_source_row 1 1))"
  "get_source_by_id ex_db 2 = Some (Source_from_row (ex_source_row 2 2))"
  "get_source_by_id ex_db 3 = Some (Source_from_row (ex_source_row 3 3))"
  "get_source_by_id ex_db 9 = None"
  by (simp_all add: get_chunk_by_id_def get_source_by_id_def ex_db_def)



lemma ex_search_hit_Some:
  "search_hit ex_db (Some 2) (''c1'', (4 / 5), ()) = Some (ex_result 1 ''c1'' (4 / 5))"
  "search_hit ex_db (Some 2) (''c2'', (4 / 5), ()) = Some (ex_result 2 ''c2'' (4 / 5))"
  "search_hit ex_db (Some 2) (''c3'', (4 / 5), ()) = None"
  "search_hit ex_db (Some 2) (''c4'', (9 / 10), ()) = None"
  "search_hit ex_db (Some 2) (''gone'', (9 / 10), ()) = None"
  by (simp_all add: search_hit_def ex_get ex_sel ex_result_def fmt_opt_def truthy_def)


lemma stale_search_hit: "stale d hit \<Longrightarrow> search_hit d tf hit = None"
  unfolding stale_def search_hit_def
  by (cases hit) (auto split: option.splits)

lemma search_loop_drop_stale:
  "search_loop d tf (filter (\<lambda>h. \<not> stale d h) raw) = search_loop d tf raw"
  by (induction raw) (auto simp: stale_search_hit split: option.splits)

lemma ex_result_sel:
  "source (ex_result i cid sim) = Source_from_row (ex_source_row i i)"
  "similarity_score (ex_result i cid sim) = sim"
  by (simp_all add: ex_result_def)

lemma ex_weighted_score:
  "i \<noteq> 0 \<Longrightarrow> weighted_score ex_rnd (ex_result i cid sim) = Inr (sim * (1 / real_of_int i))"
  by (simp add: weighted_score_def trust_weight_def ex_result_sel ex_sel ex_rnd_def)


lemma ex_search_filtered:
  "search ex_rnd (\<lambda>_ _ _ _. Inr ex_hits) ex_db ''q'' 2 (Some 2) None ''m'' =
     Inr [ex_result 1 ''c1'' (4 / 5), ex_result 2 ''c2'' (4 / 5)]"
  by (simp add: search_def ex_hits_def ex_search_hit_Some sort_by_weighted_score_def
        ex_weighted_score py_take_def)

subsection \<open>C2: ranking of search results\<close>







subsection \<open>C6: stale hits and the trust filter\<close>

text \<open>
  C6: whenever the vector index answers with hits \<open>raw\<close>, \<open>search\<close> returns a result
  list (it does not raise), and it returns the same list as a search whose hits are \<open>raw\<close>
  with every stale hit removed, so a hit whose fragment row or document row is missing is
  skipped silently; with a trust filter \<open>t\<close>, every returned result's document has
  \<open>trust_level \<le> t\<close>.
\<close>

theorem C6_stale_hits_and_trust_filter:
  assumes "search_similar q (k * 2) m sids = Inr raw"
  shows "\<exists>rs. search rnd search_similar d q k tf sids m = Inr rs
            \<and> search rnd (\<lambda>_ _ _ _. Inr (filter (\<lambda>h. \<not> stale d h) raw)) d q k tf sids m = Inr rs
            \<and> (\<forall>t. tf = Some t \<longrightarrow> (\<forall>r \<in> set rs. trust_level (source r) \<le> t))"
proof -
  have nz: "\<forall>r \<in> set (search_loop d tf raw). trust_level (source r) \<noteq> 0"
    using search_loop_nonzero by blast
  from sort_by_weighted_score_ok [OF nz] obtain sorted_rs where
    srt: "sort_by_weighted_score rnd (search_loop d tf raw) = Inr sorted_rs" and
    set_eq: "set sorted_rs = set (search_loop d tf raw)"
    by blast
  let ?rs = "py_take k sorted_rs"
  have 1: "search rnd search_similar d q k tf sids m = Inr ?rs"
    by (simp add: search_def assms srt)
  have 2: "search rnd (\<lambda>_ _ _ _. Inr (filter (\<lambda>h. \<not> stale d h) raw)) d q k tf sids m = Inr ?rs"
    by (simp add: search_def search_loop_drop_stale srt)
  have 3: "\<forall>t. tf = Some t \<longrightarrow> (\<forall>r \<in> set ?rs. trust_level (source r) \<le> t)"
    using py_take_props(1) [of k sorted_rs] set_eq search_loop_filter by blast
  from 1 2 3 show ?thesis by blast
qed

theorem C6_stale_hits_and_trust_filter_witness:
  "search ex_rnd (\<lambda>_ _ _ _. Inr ex_hits) ex_db ''q'' 2 (Some 2) None ''m'' =
     Inr [ex_result 1 ''c1'' (4 / 5), ex_result 2 ''c2'' (4 / 5)]
   \<and> search ex_rnd (\<lambda>_ _ _ _. Inr (filter (\<lambda>h. \<not> stale ex_db h) ex_hits)) ex_db ''q'' 2 (Some 2) None ''m'' =
     Inr [ex_result 1 ''c1'' (4 / 5), ex_result 2 ''c2'' (4 / 5)]
   \<and> stale ex_db (''gone'', (9 / 10), ()) \<and> stale ex_db (''c4'', (9 / 10), ())
   \<and> trust_level (source (ex_result 1 ''c1'' (4 / 5))) \<le> 2
   \<and> trust_level (source (ex_result 2 ''c2'' (4 / 5))) \<le> 2"
proof -
  have h: "(\<lambda>_ _ _ _. Inr ex_hits) ''q'' (2 * 2) ''m'' None = Inr ex_hits" by simp
  have st: "stale ex_db (''gone'', (9 / 10), ())" "stale ex_db (''c4'', (9 / 10), ())"
    by (simp_all add: stale_def ex_get ex_sel)
  from C6_stale_hits_and_trust_filter
         [of "\<lambda>_ _ _ _. Inr ex_hits" "''q''" 2 "''m''" None ex_hits ex_rnd ex_db "Some 2", OF h]
  obtain rs where
    1: "search ex_rnd (\<lambda>_ _ _ _. Inr ex_hits) ex_db ''q'' 2 (Some 2) None ''m'' = Inr rs" and
    2: "search ex_rnd (\<lambda>_ _ _ _. Inr (filter (\<lambda>h. \<not> stale ex_db h) ex_hits)) ex_db ''q'' 2 (Some 2) None ''m'' = Inr rs" and
    3: "\<forall>r \<in> set rs. trust_level (source r) \<le> 2"
    by blast
  from 1 ex_search_filtered
  have rs: "rs = [ex_result 1 ''c1'' (4 / 5), ex_result 2 ''c2'' (4 / 5)]" by simp
  from 1 2 3 st show ?thesis unfolding rs by simp
qed

subsection \<open>C3: the context assembler\<close>

lemma zip_upt_Cons:
  "map f (zip [i..<i + Suc n] (r # rs)) = f (i, r) # map f (zip [Suc i..<Suc i + n] rs)"
proof -
  have "[i..<i + Suc n] = i # [Suc i..<Suc i + n]"
    by (subst upt_conv_Cons) simp_all
  then show ?thesis by (simp del: upt_Suc)
qed

lemma context_loop_props:
  "length (context_loop i tot mx rs) \<le> length rs
   \<and> context_loop i tot mx rs =
       map (\<lambda>(j, r). ''['' @ str_of_nat j @ ''] Source: '' @ citation_ref r @ [nl]
                        @ kc_content (chunk r) @ [nl])
         (zip [i..<i + length (context_loop i tot mx rs)]
              (take (length (context_loop i tot mx rs)) rs))
   \<and> (context_loop i tot mx rs \<noteq> [] \<longrightarrow>
        tot + sum_list (map chunk_tokens (take (length (context_loop i tot mx rs)) rs)) \<le> mx)
   \<and> (length (context_loop i tot mx rs) < length rs \<longrightarrow>
        tot + sum_list (map chunk_tokens (take (length (context_loop i tot mx rs)) rs))
          + chunk_tokens (rs ! length (context_loop i tot mx rs)) > mx)"
proof (induction rs arbitrary: i tot)
  case Nil
  show ?case by simp
next
  case (Cons r rs)
  show ?case
  proof (cases "tot + chunk_tokens r > mx")
    case True
    then show ?thesis by simp
  next
    case False
    let ?n = "length (context_loop (Suc i) (tot + chunk_tokens r) mx rs)"
    let ?f = "\<lambda>(j, r). ''['' @ str_of_nat j @ ''] Source: '' @ citation_ref r @ [nl]
                        @ kc_content (chunk r) @ [nl]"
    from Cons.IH [of "Suc i" "tot + chunk_tokens r"]
    have ih1: "?n \<le> length rs"
      and ih2: "context_loop (Suc i) (tot + chunk_tokens r) mx rs =
                  map ?f (zip [Suc i..<Suc i + ?n] (take ?n rs))"
      and ih3: "context_loop (Suc i) (tot + chunk_tokens r) mx rs \<noteq> [] \<longrightarrow>
          tot + chunk_tokens r + sum_list (map chunk_tokens (take ?n rs)) \<le> mx"
      and ih4: "?n < length rs \<longrightarrow>
          tot + chunk_tokens r + sum_list (map chunk_tokens (take ?n rs)) + chunk_tokens (rs ! ?n) > mx"
      by blast+
    have step: "context_loop i tot mx (r # rs) =
        context_part i r # context_loop (Suc i) (tot + chunk_tokens r) mx rs"
      using False by simp
    have len: "length (context_loop i tot mx (r # rs)) = Suc ?n"
      unfolding step by simp
    have parts: "context_loop i tot mx (r # rs) =
        map ?f (zip [i..<i + Suc ?n] (take (Suc ?n) (r # rs)))"
    proof -
      have "context_loop i tot mx (r # rs) =
              ?f (i, r) # map ?f (zip [Suc i..<Suc i + ?n] (take ?n rs))"
        unfolding step using ih2 by (simp add: context_part_def)
      also have "\<dots> = map ?f (zip [i..<i + Suc ?n] (r # take ?n rs))"
        by (rule zip_upt_Cons [symmetric])
      finally show ?thesis by simp
    qed
    have sum_le: "tot + chunk_tokens r + sum_list (map chunk_tokens (take ?n rs)) \<le> mx"
    proof (cases "context_loop (Suc i) (tot + chunk_tokens r) mx rs = []")
      case True
      then show ?thesis using False by simp
    next
      case False
      then show ?thesis using ih3 by blast
    qed
    have c1: "length (context_loop i tot mx (r # rs)) \<le> length (r # rs)"
      unfolding len using ih1 by simp
    have c3: "tot + sum_list (map chunk_tokens
                 (take (length (context_loop i tot mx (r # rs))) (r # rs))) \<le> mx"
      unfolding len using sum_le by (simp add: add.assoc)
    have c4: "length (context_loop i tot mx (r # rs)) < length (r # rs) \<longrightarrow>
        tot + sum_list (map chunk_tokens
                 (take (length (context_loop i tot mx (r # rs))) (r # rs)))
          + chunk_tokens ((r # rs) ! length (context_loop i tot mx (r # rs))) > mx"
      unfolding len using ih4 by (simp add: add.assoc)
    from parts have c2: "context_loop i tot mx (r # rs) =
        map ?f (zip [i..<i + length (context_loop i tot mx (r # rs))]
                    (take (length (context_loop i tot mx (r # rs))) (r # rs)))"
      unfolding len .
    show ?thesis using c1 c2 c3 c4 by blast
  qed
qed

text \<open>
  C3, as the code has it: the used results are a prefix of the ranked list; the context
  text is one part for each used result, in order, joined by the separator
  \<open>"\n---\n"\<close>, and the part of the \<open>i\<close>-th used result (counted from 1) is the citation
  marker \<open>[i] Source: \<close>, the citation of the result, a newline, the content of its
  fragment and a newline, so that the assembler writes as many citation markers as there
  are used results; the sum of the budgeted token counts of the used results
  (\<open>token_count\<close>, or a quarter of the content length when it is absent or zero) is at
  most \<open>max_tokens\<close>, provided a result was used or \<open>max_tokens \<ge> 0\<close>; and when a result
  is left out, it is the first one whose tokens would push the running total over
  \<open>max_tokens\<close>, and no later result is considered. The budget does not count the
  citation headers and separators of the context text.
\<close>

theorem C3_context_budget:
  "snd (assemble_context results max_tokens) =
     take (length (snd (assemble_context results max_tokens))) results
   \<and> fst (assemble_context results max_tokens) =
       join [nl, CHR ''-'', CHR ''-'', CHR ''-'', nl]
         (map (\<lambda>(i, r). ''['' @ str_of_nat i @ ''] Source: '' @ citation_ref r @ [nl]
                          @ kc_content (chunk r) @ [nl])
            (zip [1..<Suc (length (snd (assemble_context results max_tokens)))]
                 (snd (assemble_context results max_tokens))))
   \<and> (snd (assemble_context results max_tokens) \<noteq> [] \<or> 0 \<le> max_tokens \<longrightarrow>
        sum_list (map chunk_tokens (snd (assemble_context results max_tokens))) \<le> max_tokens)
   \<and> (length (snd (assemble_context results max_tokens)) < length results \<longrightarrow>
        sum_list (map chunk_tokens (snd (assemble_context results max_tokens)))
          + chunk_tokens (results ! length (snd (assemble_context results max_tokens)))
        > max_tokens)"
proof (cases "results = []")
  case True
  then show ?thesis by (simp add: assemble_context_def)
next
  case False
  let ?parts = "context_loop 1 0 max_tokens results"
  let ?used = "take (length ?parts) results"
  let ?f = "\<lambda>(j, r). ''['' @ str_of_nat j @ ''] Source: '' @ citation_ref r @ [nl]
                      @ kc_content (chunk r) @ [nl]"
  have used: "snd (assemble_context results max_tokens) = ?used"
    and ctx: "fst (assemble_context results max_tokens) =
                join [nl, CHR ''-'', CHR ''-'', CHR ''-'', nl] ?parts"
    using False by (simp_all add: assemble_context_def Let_def SEP_def)
  from context_loop_props [of 1 0 max_tokens results]
  have p1: "length ?parts \<le> length results"
    and p2: "?parts = map ?f (zip [1..<1 + length ?parts] ?used)"
    and p3: "?parts \<noteq> [] \<longrightarrow> sum_list (map chunk_tokens ?used) \<le> max_tokens"
    and p4: "length ?parts < length results \<longrightarrow>
        sum_list (map chunk_tokens ?used) + chunk_tokens (results ! length ?parts) > max_tokens"
    by simp_all
  have len: "length ?used = length ?parts" using p1 by simp
  have a: "?used = take (length ?used) results" unfolding len ..
  have t: "join [nl, CHR ''-'', CHR ''-'', CHR ''-'', nl] ?parts =
           join [nl, CHR ''-'', CHR ''-'', CHR ''-'', nl]
             (map ?f (zip [1..<Suc (length ?used)] ?used))"
    unfolding len using p2 by simp
  have b: "?used \<noteq> [] \<or> 0 \<le> max_tokens \<longrightarrow> sum_list (map chunk_tokens ?used) \<le> max_tokens"
  proof (cases "?parts = []")
    case True
    then have "?used = []" by simp
    then have "sum_list (map chunk_tokens ?used) = 0" by (simp only: list.map sum_list.Nil)
    with \<open>?used = []\<close> show ?thesis by simp
  next
    case False
    with p3 show ?thesis by blast
  qed
  have d: "length ?used < length results \<longrightarrow>
        sum_list (map chunk_tokens ?used) + chunk_tokens (results ! length ?used) > max_tokens"
    unfolding len using p4 .
  show ?thesis
    unfolding used ctx t
    using a b d by blast
qed

lemma ex_result_chunk:
  "kc_content (chunk (ex_result i cid sim)) = ''abcd''"
  "kc_token_count (chunk (ex_result i cid sim)) = Some 1"
  "citation_ref (ex_result i cid sim) = ''n.md''"
  by (simp_all add: ex_result_def KnowledgeChunk_from_row_def ex_chunk_row_def)

lemma ex_chunk_tokens: "chunk_tokens (ex_result i cid sim) = 1"
  by (simp add: chunk_tokens_def ex_result_chunk)

lemma str_of_nat_1: "str_of_nat (Suc 0) = ''1''"
  by (subst str_of_nat.simps) (simp add: digit_char_def)

lemma str_of_nat_2: "str_of_nat (Suc (Suc 0)) = ''2''"
  by (subst str_of_nat.simps) (simp add: digit_char_def)

lemma ex_context_part_1:
  "context_part (Suc 0) (ex_result i cid sim) = ''[1] Source: n.md'' @ [nl] @ ''abcd'' @ [nl]"
  by (simp add: context_part_def ex_result_chunk str_of_nat_1)

theorem C3_context_budget_witness:
  "snd (assemble_context
          [ex_result 1 ''c1'' (4 / 5), ex_result 2 ''c2'' (4 / 5), ex_result 3 ''c3'' (4 / 5)] 2)
     = [ex_result 1 ''c1'' (4 / 5), ex_result 2 ''c2'' (4 / 5)]
   \<and> fst (assemble_context
          [ex_result 1 ''c1'' (4 / 5), ex_result 2 ''c2'' (4 / 5), ex_result 3 ''c3'' (4 / 5)] 2)
     = ''[1] Source: n.md'' @ [nl] @ ''abcd'' @ [nl]
       @ [nl] @ ''---'' @ [nl]
       @ ''[2] Source: n.md'' @ [nl] @ ''abcd'' @ [nl]
   \<and> sum_list (map chunk_tokens [ex_result 1 ''c1'' (4 / 5), ex_result 2 ''c2'' (4 / 5)]) \<le> 2
   \<and> sum_list (map chunk_tokens [ex_result 1 ''c1'' (4 / 5), ex_result 2 ''c2'' (4 / 5)])
        + chunk_tokens (ex_result 3 ''c3'' (4 / 5)) > 2"
proof -
  let ?rs = "[ex_result 1 ''c1'' (4 / 5), ex_result 2 ''c2'' (4 / 5), ex_result 3 ''c3'' (4 / 5)]"
  have u: "snd (assemble_context ?rs 2) = [ex_result 1 ''c1'' (4 / 5), ex_result 2 ''c2'' (4 / 5)]"
    by (simp add: assemble_context_def ex_chunk_tokens)
  have z: "[1..<Suc (length [ex_result 1 ''c1'' (4 / 5), ex_result 2 ''c2'' (4 / 5)])]
             = [Suc 0, Suc (Suc 0)]"
    by (simp add: upt_conv_Cons)
  show ?thesis
    using C3_context_budget [of ?rs 2] unfolding u z
    by (simp add: eval_nat_numeral ex_result_chunk str_of_nat_1 str_of_nat_2)
qed

lemma ex_quoting_text:
  "assemble_context [ex_quoting_result] 10 =
     (''[1] Source: n.md'' @ [nl] @ ''see [9] Source: x'' @ [nl], [ex_quoting_result])"
proof -
  have c: "kc_content (chunk ex_quoting_result) = ''see [9] Source: x''"
    and t: "kc_token_count (chunk ex_quoting_result) = Some 1"
    and r: "citation_ref ex_quoting_result = ''n.md''"
    by (simp_all add: ex_quoting_result_def KnowledgeChunk_from_row_def ex_chunk_row_def)
  have k: "chunk_tokens ex_quoting_result = 1"
    by (simp add: chunk_tokens_def t)
  have n: "ex_quoting_result # [] \<noteq> []" by simp
  show ?thesis
    unfolding assemble_context_def
    by (simp only: n if_False Let_def context_loop.simps k)
       (simp add: context_part_def c r str_of_nat_1)
qed

lemma ex_quoting_markers:
  "count_markers (''[1] Source: n.md'' @ [nl] @ ''see [9] Source: x'' @ [nl]) = 2"
  by code_simp

text \<open>
  C3 as stated fails in two of its parts. One result of one token fits a budget of one
  token, and the context text built for it has 22 characters, an estimate of 5 tokens:
  the estimate of the context text exceeds the budget. And one used result whose
  fragment reads \<open>see [9] Source: x\<close> gives a context text in which two citation markers
  are present, the one that the assembler wrote and the one of the fragment.
\<close>

theorem C3_counterexample:
  "snd (assemble_context [ex_result 1 ''c1'' (4 / 5)] 1) = [ex_result 1 ''c1'' (4 / 5)]
   \<and> estimate_tokens (fst (assemble_context [ex_result 1 ''c1'' (4 / 5)] 1)) = 5
   \<and> \<not> estimate_tokens (fst (assemble_context [ex_result 1 ''c1'' (4 / 5)] 1)) \<le> 1
   \<and> snd (assemble_context [ex_quoting_result] 10) = [ex_quoting_result]
   \<and> count_markers (fst (assemble_context [ex_quoting_result] 10)) = 2
   \<and> length (snd (assemble_context [ex_quoting_result] 10))
       \<noteq> count_markers (fst (assemble_context [ex_quoting_result] 10))"
proof -
  have 1: "snd (assemble_context [ex_result 1 ''c1'' (4 / 5)] 1) = [ex_result 1 ''c1'' (4 / 5)]
   \<and> estimate_tokens (fst (assemble_context [ex_result 1 ''c1'' (4 / 5)] 1)) = 5
   \<and> \<not> estimate_tokens (fst (assemble_context [ex_result 1 ''c1'' (4 / 5)] 1)) \<le> 1"
    by (simp add: assemble_context_def ex_chunk_tokens ex_context_part_1 estimate_tokens_def
          CHARS_PER_TOKEN_def)
  have 2: "snd (assemble_context [ex_quoting_result] 10) = [ex_quoting_result]
   \<and> count_markers (fst (assemble_context [ex_quoting_result] 10)) = 2
   \<and> length (snd (assemble_context [ex_quoting_result] 10))
       \<noteq> count_markers (fst (assemble_context [ex_quoting_result] 10))"
    unfolding ex_quoting_text fst_conv snd_conv ex_quoting_markers by simp
  from 1 2 show ?thesis by blast
qed

subsection \<open>C5: verifying a source\<close>

lemma not_found_sublist: "sublist ''not found'' ''File not found''"
  by (simp add: py_in_sublist [symmetric])

lemma update_source_get:
  assumes "sources d i = Some row"
  shows "sources (update_source d (Some i) f) i = Some (f row)"
  using assms by (simp add: update_source_def)

text \<open>
  C5: for a document record \<open>src\<close> read from row \<open>i\<close> of the store, \<open>verify_source\<close>
  behaves as follows. If the file is missing, the row's status becomes \<open>failed\<close>, its error
  message becomes \<open>File not found\<close> (which contains \<open>not found\<close>), and the result is false.
  If the file exists and its hash differs from the stored hash, the row's status becomes
  \<open>changed\<close> and the result is false. If the hash is unchanged, the status is left as it
  was, \<open>last_verified\<close> is set to the current time, and the result is true.
\<close>

theorem C5_verify_source:
  assumes "sources d i = Some row" and "row_id row = i" and "src = Source_from_row row"
  shows "(fs (file_path src) = None \<longrightarrow>
            (\<exists>d' s'. verify_source sha256 fs now d src = Inr (d', False)
               \<and> get_source_by_id d' i = Some s'
               \<and> status s' = ''failed''
               \<and> error_message s' = Some ''File not found''
               \<and> sublist ''not found'' ''File not found''))
       \<and> (\<forall>data. fs (file_path src) = Some (RegularFile data)
                 \<and> Some (sha256 data) \<noteq> file_hash src \<longrightarrow>
            (\<exists>d' s'. verify_source sha256 fs now d src = Inr (d', False)
               \<and> get_source_by_id d' i = Some s'
               \<and> status s' = ''changed''))
       \<and> (\<forall>data. fs (file_path src) = Some (RegularFile data)
                 \<and> Some (sha256 data) = file_hash src \<longrightarrow>
            (\<exists>d' s'. verify_source sha256 fs now d src = Inr (d', True)
               \<and> get_source_by_id d' i = Some s'
               \<and> status s' = status src
               \<and> last_verified s' = Some now))"
proof -
  have sid: "src_id src = Some i" using assms(2,3) by (simp add: Source_from_row_def)
  have 1: "fs (file_path src) = None \<longrightarrow>
            (\<exists>d' s'. verify_source sha256 fs now d src = Inr (d', False)
               \<and> get_source_by_id d' i = Some s'
               \<and> status s' = ''failed''
               \<and> error_message s' = Some ''File not found''
               \<and> sublist ''not found'' ''File not found'')"
    using assms(1) not_found_sublist
    by (simp add: verify_source_def sid update_source_get get_source_by_id_def
          Source_from_row_def str_or_def)
  have 2: "\<forall>data. fs (file_path src) = Some (RegularFile data)
                 \<and> Some (sha256 data) \<noteq> file_hash src \<longrightarrow>
            (\<exists>d' s'. verify_source sha256 fs now d src = Inr (d', False)
               \<and> get_source_by_id d' i = Some s'
               \<and> status s' = ''changed'')"
    using assms(1)
    by (simp add: verify_source_def sid update_source_def get_source_by_id_def
          Source_from_row_def str_or_def Let_def)
  have 3: "\<forall>data. fs (file_path src) = Some (RegularFile data)
                 \<and> Some (sha256 data) = file_hash src \<longrightarrow>
            (\<exists>d' s'. verify_source sha256 fs now d src = Inr (d', True)
               \<and> get_source_by_id d' i = Some s'
               \<and> status s' = status src
               \<and> last_verified s' = Some now)"
    using assms
    by (simp add: verify_source_def update_source_def get_source_by_id_def
          Source_from_row_def Let_def)
  from 1 2 3 show ?thesis by blast
qed

lemma ex_row1:
  "sources ex_db 1 = Some (ex_source_row 1 1)"
  "row_id (ex_source_row 1 1) = 1"
  "file_path (Source_from_row (ex_source_row 1 1)) = ''/notes/n.md''"
  "file_hash (Source_from_row (ex_source_row 1 1)) = Some ''h''"
  "status (Source_from_row (ex_source_row 1 1)) = ''indexed''"
  by (simp_all add: ex_db_def ex_source_row_def Source_from_row_def str_or_def)

theorem C5_verify_source_witness:
  "(\<exists>d' s'. verify_source (\<lambda>_. ''h'') Map.empty 7 ex_db (Source_from_row (ex_source_row 1 1))
              = Inr (d', False)
          \<and> get_source_by_id d' 1 = Some s' \<and> status s' = ''failed''
          \<and> error_message s' = Some ''File not found'')
   \<and> (\<exists>d' s'. verify_source (\<lambda>_. ''x'') [''/notes/n.md'' \<mapsto> RegularFile ''abc''] 7 ex_db
                (Source_from_row (ex_source_row 1 1)) = Inr (d', False)
          \<and> get_source_by_id d' 1 = Some s' \<and> status s' = ''changed'')
   \<and> (\<exists>d' s'. verify_source (\<lambda>_. ''h'') [''/notes/n.md'' \<mapsto> RegularFile ''abc''] 7 ex_db
                (Source_from_row (ex_source_row 1 1)) = Inr (d', True)
          \<and> get_source_by_id d' 1 = Some s' \<and> status s' = ''indexed''
          \<and> last_verified s' = Some 7)"
proof -
  let ?src = "Source_from_row (ex_source_row 1 1)"
  let ?fs = "[''/notes/n.md'' \<mapsto> RegularFile ''abc'']"
  note t = C5_verify_source [OF ex_row1(1) ex_row1(2) refl]
  have a: "Map.empty (file_path ?src) = None" by simp
  have b: "?fs (file_path ?src) = Some (RegularFile ''abc'')
           \<and> Some ((\<lambda>_. ''x'') ''abc'') \<noteq> file_hash ?src"
    by (simp add: ex_row1)
  have c: "?fs (file_path ?src) = Some (RegularFile ''abc'')
           \<and> Some ((\<lambda>_. ''h'') ''abc'') = file_hash ?src"
    by (simp add: ex_row1)
  from t [of Map.empty "\<lambda>_. ''h''" 7] a
  have 1: "\<exists>d' s'. verify_source (\<lambda>_. ''h'') Map.empty 7 ex_db ?src = Inr (d', False)
          \<and> get_source_by_id d' 1 = Some s' \<and> status s' = ''failed''
          \<and> error_message s' = Some ''File not found''"
    by blast
  from t [of ?fs "\<lambda>_. ''x''" 7] b
  have 2: "\<exists>d' s'. verify_source (\<lambda>_. ''x'') ?fs 7 ex_db ?src = Inr (d', False)
          \<and> get_source_by_id d' 1 = Some s' \<and> status s' = ''changed''"
    by blast
  from t [of ?fs "\<lambda>_. ''h''" 7] c
  have 3: "\<exists>d' s'. verify_source (\<lambda>_. ''h'') ?fs 7 ex_db ?src = Inr (d', True)
          \<and> get_source_by_id d' 1 = Some s' \<and> status s' = ''indexed''
          \<and> last_verified s' = Some 7"
    unfolding ex_row1(5) by blast
  from 1 2 3 show ?thesis by blast
qed

subsection \<open>C8: the title of a registered markdown file\<close>

lemma ex_strip: "strip ex_markdown = ''Intro line'' @ [nl] @ ''# Real Title''"
  by (simp add: strip_def ex_markdown_def is_space_def)

lemma ex_title: "extract_title_from_markdown ex_markdown = None"
  by (simp add: extract_title_from_markdown_def ex_strip)

lemma ex_title_ok:
  "extract_title_from_markdown (''# Real Title'' @ [nl] @ ''Intro line'') = Some ''Real Title''"
  by (simp add: extract_title_from_markdown_def strip_def heading_tail_def is_space_def)

lemma ex_path:
  "path_name ''/notes/a.md'' = ''a.md''"
  "path_suffix ''/notes/a.md'' = ''.md''"
  "path_stem ''/notes/a.md'' = ''a''"
  "detect_file_type ''/notes/a.md'' = Some ''md''"
  by (simp_all add: path_name_def path_suffix_def path_stem_def has_suffix_def
        detect_file_type_def lower_def char_lower_def Let_def)

text \<open>
  C8 at a markdown file whose level-1 heading \<open># Real Title\<close> is on its second line,
  registered without a title: \<open>create_source\<close> does not find the heading, because
  \<open>re.match\<close> only matches at the start of the stripped content, and the title of the new
  document is the filename stem \<open>a\<close>; its status is \<open>pending\<close>.
\<close>

theorem C8_heading_after_first_line_ignored:
  "\<exists>d' s. create_source (\<lambda>p. p) (\<lambda>_. ''h'') (\<lambda>_. ([], []))
             [''/notes/a.md'' \<mapsto> RegularFile ex_markdown] 1 0 empty_db
             ''/notes/a.md'' 1 None None = Inr (d', Some s)
          \<and> title s = Some ''a'' \<and> status s = ''pending''"
  by (simp add: create_source_def ex_path ex_title truthy_def get_source_by_id_def
        Source_from_row_def str_or_def Let_def)

subsection \<open>C10: discovery lists top-level files twice\<close>

lemma count_list_concat:
  "count_list (concat xss) x = sum_list (map (\<lambda>xs. count_list xs x) xss)"
  by (induction xss) simp_all

lemma count_list_filter:
  "count_list (filter P xs) x = (if P x then count_list xs x else 0)"
  by (induction xs) auto

lemma count_select_top:
  assumes "distinct (map fst es)" and "(n, nd) \<in> set es"
  shows "count_list (select_matches ext [] es) [n] = (if suffix ext n then 1 else 0)"
  using assms
proof (induction es)
  case Nil
  then show ?case by simp
next
  case (Cons e es)
  show ?case
  proof (cases "fst e = n")
    case True
    with Cons.prems have "n \<notin> fst ` set es" by auto
    then have "count_list (select_matches ext [] es) [n] = 0"
      by (auto simp: select_matches_def count_list_0_iff)
    with True show ?thesis by (simp add: select_matches_def)
  next
    case False
    with Cons.prems have "(n, nd) \<in> set es" "distinct (map fst es)" by auto
    with Cons.IH have "count_list (select_matches ext [] es) [n] = (if suffix ext n then 1 else 0)"
      by blast
    with False show ?thesis by (simp add: select_matches_def)
  qed
qed

lemma walk_deeper:
  "(p, es') \<in> set (walk pre es) \<Longrightarrow> length pre \<le> length p"
  "(p, es') \<in> set (walk_entries pre es) \<Longrightarrow> length pre < length p"
  by (induction pre es and pre es rule: walk_walk_entries.induct) fastforce+

lemma count_select_deep:
  "pre \<noteq> [] \<Longrightarrow> count_list (select_matches ext pre es) [n] = 0"
  by (auto simp: select_matches_def count_list_0_iff)

lemma count_glob_recursive:
  assumes "distinct (map fst es)" and "(n, nd) \<in> set es"
  shows "count_list (glob_recursive ext es) [n] = (if suffix ext n then 1 else 0)"
proof -
  have deep: "\<forall>x \<in> set (walk_entries [] es). count_list (case x of (pre, es') \<Rightarrow> select_matches ext pre es') [n] = 0"
  proof
    fix x assume x: "x \<in> set (walk_entries [] es)"
    obtain p es' where px: "x = (p, es')" by (cases x)
    with x walk_deeper(2) [of p es' "[]" es] have "p \<noteq> []" by auto
    with px show "count_list (case x of (pre, es') \<Rightarrow> select_matches ext pre es') [n] = 0"
      by (simp add: count_select_deep)
  qed
  have "sum_list (map (\<lambda>x. count_list (case x of (pre, es') \<Rightarrow> select_matches ext pre es') [n])
          (walk_entries [] es)) = 0"
    using deep by (simp add: sum_list_eq_0_iff)
  then show ?thesis
    using count_select_top [OF assms]
    by (simp add: glob_recursive_def count_list_concat comp_def)
qed


lemma distinct_count_le_1: "distinct xs \<Longrightarrow> count_list xs x \<le> 1"
  by (induction xs) (auto simp: count_list_0_iff)

lemma supported_exclusive:
  "\<not> (suffix ''.pdf'' n \<and> suffix ''.md'' n)"
  "\<not> (suffix ''.pdf'' n \<and> suffix ''.txt'' n)"
  "\<not> (suffix ''.md'' n \<and> suffix ''.txt'' n)"
  using suffix_same_cases [of "''.pdf''" n "''.md''"]
        suffix_same_cases [of "''.pdf''" n "''.txt''"]
        suffix_same_cases [of "''.md''" n "''.txt''"]
  by (auto simp: suffix_to_prefix)

lemma sum_supported:
  assumes "distinct exts" and "set exts = SUPPORTED_EXTENSIONS"
    and "\<exists>e \<in> SUPPORTED_EXTENSIONS. suffix e n"
  shows "sum_list (map (\<lambda>e. if suffix e n then 1 else 0) exts) = (1::nat)"
proof -
  have "sum_list (map (\<lambda>e. if suffix e n then 1 else 0) exts)
        = (\<Sum>e \<in> {''.pdf'', ''.md'', ''.txt''}. if suffix e n then 1 else (0::nat))"
    using assms(1,2) by (simp add: sum_list_distinct_conv_sum_set SUPPORTED_EXTENSIONS_def)
  also have "\<dots> = (if suffix ''.pdf'' n then 1 else 0) + (if suffix ''.md'' n then 1 else 0)
                   + (if suffix ''.txt'' n then 1 else 0)"
    by simp
  also have "\<dots> = 1"
    using assms(3) supported_exclusive [of n]
    by (auto simp: SUPPORTED_EXTENSIONS_def)
  finally show ?thesis .
qed

text \<open>
  C10: in a directory whose entries have distinct names, every entry located directly in
  the directory whose name ends with a supported extension and whose resolved path is not
  tracked occurs exactly twice in the list returned by \<open>discover_new_sources\<close>, once from
  the pattern \<open>*ext\<close> and once from the pattern \<open>**/*ext\<close>, whatever the order in which
  the set of supported extensions is iterated; the returned list is not duplicate-free.
\<close>

theorem C10_top_level_file_twice:
  assumes "distinct (map fst entries)" and "(n, nd) \<in> set entries"
    and "distinct exts" and "set exts = SUPPORTED_EXTENSIONS"
    and "\<exists>e \<in> SUPPORTED_EXTENSIONS. suffix e n"
    and "resolve [n] \<notin> tracked_paths d"
  shows "count_list (discover_new_sources exts resolve d entries) [n] = 2
       \<and> \<not> distinct (discover_new_sources exts resolve d entries)"
proof -
  have per: "count_list (glob_top e entries @ glob_recursive e entries) [n]
             = 2 * (if suffix e n then 1 else 0)" for e
    using count_select_top [OF assms(1,2)] count_glob_recursive [OF assms(1,2)]
    by (simp add: glob_top_def)
  have "count_list (concat (map (\<lambda>e. glob_top e entries @ glob_recursive e entries) exts)) [n]
        = sum_list (map (\<lambda>e. 2 * (if suffix e n then 1 else 0)) exts)"
    by (simp add: count_list_concat comp_def per del: count_list_append)
  also have "\<dots> = 2 * sum_list (map (\<lambda>e. if suffix e n then 1 else 0) exts)"
    by (simp add: sum_list_const_mult)
  also have "\<dots> = 2" using sum_supported [OF assms(3,4,5)] by simp
  finally have c: "count_list (discover_new_sources exts resolve d entries) [n] = 2"
    using assms(6) by (simp add: discover_new_sources_def count_list_filter)
  have "\<not> distinct (discover_new_sources exts resolve d entries)"
    using c distinct_count_le_1 [of "discover_new_sources exts resolve d entries" "[n]"]
    by auto
  with c show ?thesis by blast
qed

lemma ex_tracked: "tracked_paths empty_db = {}"
  by (simp add: tracked_paths_def empty_db_def)

lemma ex_discover:
  "discover_new_sources [''.pdf'', ''.md'', ''.txt''] ex_resolve empty_db ex_entries =
     [[''doc2.md''], [''doc2.md''], [''sub'', ''deep.md''], [''doc1.txt''], [''doc1.txt'']]"
  by (simp add: discover_new_sources_def ex_tracked glob_top_def glob_recursive_def
        select_matches_def ex_entries_def suffix_to_prefix)

theorem C10_top_level_file_twice_witness:
  "discover_new_sources [''.pdf'', ''.md'', ''.txt''] ex_resolve empty_db ex_entries =
     [[''doc2.md''], [''doc2.md''], [''sub'', ''deep.md''], [''doc1.txt''], [''doc1.txt'']]
   \<and> count_list (discover_new_sources [''.pdf'', ''.md'', ''.txt''] ex_resolve empty_db ex_entries)
        [''doc1.txt''] = 2
   \<and> \<not> distinct (discover_new_sources [''.pdf'', ''.md'', ''.txt''] ex_resolve empty_db ex_entries)"
proof -
  have 1: "distinct (map fst ex_entries)" by (simp add: ex_entries_def)
  have 2: "(''doc1.txt'', File) \<in> set ex_entries" by (simp add: ex_entries_def)
  have 3: "distinct [''.pdf'', ''.md'', ''.txt'']" by simp
  have 4: "set [''.pdf'', ''.md'', ''.txt''] = SUPPORTED_EXTENSIONS"
    by (simp add: SUPPORTED_EXTENSIONS_def)
  have 5: "\<exists>e \<in> SUPPORTED_EXTENSIONS. suffix e ''doc1.txt''"
    by (simp add: SUPPORTED_EXTENSIONS_def suffix_to_prefix)
  have 6: "ex_resolve [''doc1.txt''] \<notin> tracked_paths empty_db" by (simp add: ex_tracked)
  from C10_top_level_file_twice
         [of ex_entries "''doc1.txt''" File "[''.pdf'', ''.md'', ''.txt'']" ex_resolve empty_db,
          OF 1 2 3 4 5 6]
       ex_discover
  show ?thesis by simp
qed

subsection \<open>C4: the merge-repair pass\<close>

text \<open>
  What the pass does establish: every chunk of its output except possibly the last one
  meets the floor.
\<close>

lemma merge_from_floor:
  "\<forall>c \<in> set (butlast (merge_from current rest min_tokens)). min_tokens \<le> token_count c"
  by (induction current rest min_tokens rule: merge_from.induct) auto

lemma merge_small_chunks_floor:
  "\<forall>c \<in> set (butlast (merge_small_chunks chunks min_tokens)). min_tokens \<le> token_count c"
proof (cases "length chunks \<le> 1")
  case True
  then have "butlast chunks = []" by (cases chunks) auto
  with True show ?thesis by (simp add: merge_small_chunks_def)
next
  case False
  then show ?thesis using merge_from_floor by (simp add: merge_small_chunks_def)
qed

text \<open>
  C4 does not hold of the code, which merges a small chunk into its successor only (the
  inner loop runs while \<open>i + 1 < len(chunks)\<close>) and never into its predecessor, although
  the pass is documented as "Merge chunks that are too small with their neighbors" and
  is called under the comment "Handle chunks that are too small by merging". For two
  chunks of 500 and 10 tokens and a floor of 300, \<open>_merge_small_chunks\<close> returns the two
  chunks unchanged: the output has more than one chunk and its last chunk, of 10 tokens,
  is below the floor. The same happens from \<open>chunk_text\<close>: the text of a paragraph of 16
  characters and a paragraph of 4 characters, with \<open>min_tokens = 2\<close>, \<open>max_tokens = 4\<close>
  and no overlap, gives two chunks, the last one of 1 token.
\<close>

theorem C4_tail_chunk_below_floor:
  "merge_small_chunks [ex_chunk ''aaaa'' 500, ex_chunk ''bb'' 10] 300 =
     [ex_chunk ''aaaa'' 500, ex_chunk ''bb'' 10]
   \<and> 1 < length (merge_small_chunks [ex_chunk ''aaaa'' 500, ex_chunk ''bb'' 10] 300)
   \<and> token_count (last (merge_small_chunks [ex_chunk ''aaaa'' 500, ex_chunk ''bb'' 10] 300)) = 10
   \<and> \<not> 300 \<le> token_count (last (merge_small_chunks [ex_chunk ''aaaa'' 500, ex_chunk ''bb'' 10] 300))
   \<and> chunk_text (''aaaaaaaaaaaaaaaa'' @ [nl, nl] @ ''bbbb'') ''txt'' 2 4 0 =
       [\<lparr> content = ''aaaaaaaaaaaaaaaa'', page_or_section = None, chunk_index = 0,
           start_char = 0, end_char = 16, token_count = 4 \<rparr>,
        \<lparr> content = ''bbbb'', page_or_section = None, chunk_index = 1,
           start_char = 18, end_char = 22, token_count = 1 \<rparr>]"
proof -
  have m: "merge_small_chunks [ex_chunk ''aaaa'' 500, ex_chunk ''bb'' 10] 300 =
     [ex_chunk ''aaaa'' 500, ex_chunk ''bb'' 10]"
    by (simp add: merge_small_chunks_def ex_chunk_def)
  have t: "token_count (ex_chunk ''bb'' 10) = 10"
    by (simp add: ex_chunk_def)
  have c: "chunk_text (''aaaaaaaaaaaaaaaa'' @ [nl, nl] @ ''bbbb'') ''txt'' 2 4 0 =
       [\<lparr> content = ''aaaaaaaaaaaaaaaa'', page_or_section = None, chunk_index = 0,
           start_char = 0, end_char = 16, token_count = 4 \<rparr>,
        \<lparr> content = ''bbbb'', page_or_section = None, chunk_index = 1,
           start_char = 18, end_char = 22, token_count = 1 \<rparr>]"
    by code_simp
  show ?thesis unfolding m using t c by simp
qed

subsection \<open>C9: the hasAnswer predicate\<close>

text \<open>
  C9, as the code has it: \<open>has_answer\<close> is true exactly when the answer is non-empty and
  its lower-cased text does not contain the fragment \<open>don't have enough information\<close>
  (a part of the canonical escape phrase, not the whole phrase).
\<close>

theorem C9_has_answer_fragment:
  "has_answer a \<longleftrightarrow>
     answer a \<noteq> [] \<and> \<not> sublist ''don't have enough information'' (lower (answer a))"
  by (simp add: has_answer_def py_in_sublist)

theorem C9_has_answer_fragment_witness:
  "answer (ex_answer ''Here is a real answer with content.'') \<noteq> [] \<and>
   \<not> sublist ''don't have enough information''
       (lower (answer (ex_answer ''Here is a real answer with content.'')))"
proof -
  have "has_answer (ex_answer ''Here is a real answer with content.'')"
    by code_simp
  then show ?thesis
    using C9_has_answer_fragment [of "ex_answer ''Here is a real answer with content.''"]
    by simp
qed

text \<open>
  C9 as stated fails: the answer \<open>I don't have enough information to answer.\<close> is
  non-empty and does not contain the canonical escape phrase, yet \<open>has_answer\<close> is false.
\<close>

theorem C9_counterexample:
  "answer (ex_answer ''I don't have enough information to answer.'') \<noteq> []
   \<and> \<not> contains_ci ESCAPE_PHRASE (answer (ex_answer ''I don't have enough information to answer.''))
   \<and> \<not> has_answer (ex_answer ''I don't have enough information to answer.'')"
proof -
  let ?a = "ex_answer ''I don't have enough information to answer.''"
  have 1: "answer ?a \<noteq> []" by (simp add: ex_answer_def)
  have 2: "\<not> contains_ci ESCAPE_PHRASE (answer ?a)"
  proof
    assume "contains_ci ESCAPE_PHRASE (answer ?a)"
    then have "length (lower ESCAPE_PHRASE) \<le> length (lower (answer ?a))"
      unfolding contains_ci_def by (rule sublist_length_le)
    then show False by (simp add: lower_def ESCAPE_PHRASE_def ex_answer_def)
  qed
  have 3: "\<not> has_answer ?a" by code_simp
  from 1 2 3 show ?thesis by blast
qed

end
